theory Spec2Isabelle
  imports Main "HOL-Library.AList" "HOL-Library.Multiset"
begin

section \<open>Data model\<close>

text \<open>
  A Go error is a value with a message; a nil error is \<open>None\<close>. The constructors
  follow the taxonomy of the specification (section 7). \<open>ValidationFailed\<close> carries
  the whole message that \<open>fmt.Errorf\<close> builds in \<open>AllocateIPPrefix\<close>,
  \<open>NotInitialized\<close> is the error that the comment in \<open>AllocateIPPrefix\<close>
  announces for an instance that is not initialized, and \<open>BackendFailure\<close> and
  \<open>MalformedInput\<close> carry the message or the offending input.
\<close>

datatype error =
    NotFound string
  | NotInitialized string
  | AlreadyExists string
  | ValidationFailed string
  | MalformedInput string
  | BackendFailure string

text \<open>
  The prefix kinds of the kubebuilder enum in \<open>IPPrefixSpec\<close>:
  \<open>network\<close>, \<open>loopback\<close>, \<open>pool\<close>, \<open>aggregate\<close>.
\<close>

datatype PrefixKind =
  PrefixKindNetwork | PrefixKindLoopback | PrefixKindPool | PrefixKindAggregate

text \<open>
  An IPv4 prefix in CIDR form: the address as a number below \<open>2 ^ 32\<close> (host bits
  kept as written, so \<open>10.0.0.1/24\<close> and \<open>10.0.0.2/24\<close> differ) and the
  prefix length.
\<close>

record cidr =
  addr :: int
  plen :: nat

text \<open>
  \<open>table.Route\<close>: a prefix with its labels. Go's \<open>map[string]string\<close> of labels is
  an association list read with \<open>map_of\<close>. The specification speaks of a route's
  prefix kind and of its createPrefix flag; both are kept as fields of the route.
\<close>

record Route =
  prefix :: cidr
  labels :: "(string \<times> string) list"
  kind :: PrefixKind
  createPrefix :: bool

text \<open>\<open>allocpb.StatusCode\<close> is a protobuf enum; the watcher only passes it on.\<close>

type_synonym StatusCode = int

text \<open>
  The allocation request and its result, with the fields that the test of the engine
  sets and reads: \<open>Spec.NetworkInstance\<close>, \<open>Spec.PrefixKind\<close> (a Go string type),
  \<open>Spec.Prefix\<close> (empty when the request carries no prefix), \<open>Spec.CreatePrefix\<close>,
  \<open>Spec.Labels\<close>, \<open>Status.AllocatedPrefix\<close> and \<open>Status.Gateway\<close>.
\<close>

record IPAllocationSpec =
  NetworkInstance :: string
  PrefixKind :: string
  Prefix :: string
  CreatePrefix :: bool
  Labels :: "(string \<times> string) list"

record IPAllocationStatus =
  AllocatedPrefix :: string
  Gateway :: string

record IPAllocation =
  Name :: string
  Spec :: IPAllocationSpec
  Status :: IPAllocationStatus

section \<open>Watcher (internal/ipam/watcher.go)\<close>

text \<open>
  The registry \<open>d\<close> is \<open>map[string]map[string]CallbackFn\<close>: owner-kind key, then
  owner value, then callback. Both levels are association lists with distinct keys;
  the order of a list stands for the order in which Go happens to iterate over the
  map. A callback is an opaque value of type \<open>'f\<close>: calling it is recorded as an
  invocation \<open>(fn, routes, statusCode)\<close>.
\<close>

type_synonym 'f watchMap = "(string \<times> (string \<times> 'f) list) list"




record 'f updateContext =
  routes :: "Route list"
  callBackFn :: "'f"

type_synonym 'f updateMap = "(string \<times> 'f updateContext) list"

text \<open>
  The body of the innermost \<open>if ownerGvkValue == value\<close>: the entry of
  \<open>updateMap\<close> is keyed by the owner value alone; it is created with the callback at
  hand when absent, then the route is appended.
\<close>

definition addRoute :: "Route \<Rightarrow> string \<Rightarrow> 'f \<Rightarrow> 'f updateMap \<Rightarrow> 'f updateMap" where
  "addRoute route ownerGvkValue fn um =
     (let um1 = (case map_of um ownerGvkValue of
                   None \<Rightarrow> AList.update ownerGvkValue \<lparr>routes = [], callBackFn = fn\<rparr> um
                 | Some _ \<Rightarrow> um)
      in case map_of um1 ownerGvkValue of
           None \<Rightarrow> um1
         | Some uc \<Rightarrow> AList.update ownerGvkValue (uc\<lparr>routes := routes uc @ [route]\<rparr>) um1)"

text \<open>\<open>for value, fn := range values\<close>\<close>

definition valuesLoop ::
  "Route \<Rightarrow> string \<Rightarrow> (string \<times> 'f) list \<Rightarrow> 'f updateMap \<Rightarrow> 'f updateMap" where
  "valuesLoop route ownerGvkValue vals um =
     fold (\<lambda>(v, fn) um'. if ownerGvkValue = v then addRoute route ownerGvkValue fn um' else um')
          vals um"

text \<open>\<open>for ownerGvkKey, values := range r.d\<close>\<close>

definition keysLoop :: "'f watchMap \<Rightarrow> Route \<Rightarrow> 'f updateMap \<Rightarrow> 'f updateMap" where
  "keysLoop d route um =
     fold (\<lambda>(ownerGvkKey, vals) um'.
             case map_of (labels route) ownerGvkKey of
               Some ownerGvkValue \<Rightarrow> valuesLoop route ownerGvkValue vals um'
             | None \<Rightarrow> um')
          d um"

text \<open>\<open>for _, route := range routes\<close>, starting from the empty \<open>updateMap\<close>\<close>

definition buildUpdateMap :: "'f watchMap \<Rightarrow> Route list \<Rightarrow> 'f updateMap" where
  "buildUpdateMap d rs = fold (keysLoop d) rs []"

text \<open>
  \<open>handleUpdate\<close> returns the callback invocations it makes, one for each entry of
  \<open>updateMap\<close>. Go leaves their order open, so properties are stated on the multiset
  of invocations.
\<close>

definition handleUpdate ::
  "'f watchMap \<Rightarrow> Route list \<Rightarrow> StatusCode \<Rightarrow> ('f \<times> Route list \<times> StatusCode) list" where
  "handleUpdate d rs statusCode =
     map (\<lambda>(ownerGvk, uc). (callBackFn uc, routes uc, statusCode)) (buildUpdateMap d rs)"




text \<open>
  The registry invariant: keys are distinct on both levels (the lists are maps) and no
  owner-kind key is bound to an empty inner map.
\<close>

definition watchInv :: "'f watchMap \<Rightarrow> bool" where
  "watchInv d \<longleftrightarrow>
     distinct (map fst d) \<and> (\<forall>(k, m) \<in> set d. m \<noteq> [] \<and> distinct (map fst m))"

text \<open>The callback registered for an owner-kind key and an owner value, if any.\<close>

definition registered :: "'f watchMap \<Rightarrow> string \<Rightarrow> string \<Rightarrow> 'f option" where
  "registered d k v = (case map_of d k of None \<Rightarrow> None | Some m \<Rightarrow> map_of m v)"

section \<open>Client proxy (ValidateIpamResponse)\<close>

text \<open>
  \<open>allocpb.Response\<close>; only its \<open>Status\<close> field, the JSON bytes of an
  allocation, is read.
\<close>

record Response =
  RespStatus :: string

text \<open>
  \<open>json.Unmarshal\<close> into a fresh \<open>IPAllocation\<close> belongs to Go's standard library
  and is a parameter: a function from the bytes to an error or the decoded allocation.
  Both calls in the source read \<open>origResp.Status\<close>; \<open>newResp\<close> is never read.
\<close>

definition ValidateIpamResponse ::
  "(string \<Rightarrow> error + IPAllocation) \<Rightarrow> Response \<Rightarrow> Response \<Rightarrow> bool" where
  "ValidateIpamResponse unmarshal origResp newResp =
     (case unmarshal (RespStatus origResp) of
        Inl err \<Rightarrow> False
      | Inr origAlloc \<Rightarrow>
          (case unmarshal (RespStatus origResp) of
             Inl err \<Rightarrow> False
           | Inr newAlloc \<Rightarrow>
               if AllocatedPrefix (Status origAlloc) \<noteq> AllocatedPrefix (Status newAlloc)
                  \<or> Gateway (Status origAlloc) \<noteq> Gateway (Status newAlloc)
               then False
               else True))"

section \<open>Route table\<close>

text \<open>
  Modelled from the spec: the parser of prefix strings is missing from the sources. A
  prefix is an explicit CIDR; the syntax is the IPv4 alternative of the validation
  pattern on \<open>IPPrefixSpec.Prefix\<close>: four decimal octets from 0 to 255 without leading
  zeros, a slash and a length from 0 to 32. The value of a decimal digit comes first.
\<close>

definition digitVal :: "char \<Rightarrow> nat option" where
  "digitVal c =
     (let n = (of_char c :: nat) in if 48 \<le> n \<and> n \<le> 57 then Some (n - 48) else None)"

text \<open>Modelled from the spec: the value of a string of decimal digits (prefix parser).\<close>

fun parseDigits :: "nat \<Rightarrow> string \<Rightarrow> nat option" where
  "parseDigits acc [] = Some acc"
| "parseDigits acc (c # cs) =
     (case digitVal c of None \<Rightarrow> None | Some d \<Rightarrow> parseDigits (10 * acc + d) cs)"

text \<open>
  Modelled from the spec: a decimal number of the prefix syntax, not empty and without
  leading zeros (prefix parser).
\<close>

definition parseDecimal :: "string \<Rightarrow> nat option" where
  "parseDecimal s =
     (case s of
        [] \<Rightarrow> None
      | c # cs \<Rightarrow> if c = CHR ''0'' \<and> cs \<noteq> [] then None else parseDigits 0 s)"

text \<open>Modelled from the spec: the fields of a string between separators (prefix parser).\<close>

fun splitOn :: "char \<Rightarrow> string \<Rightarrow> string list" where
  "splitOn sep [] = [[]]"
| "splitOn sep (c # cs) =
     (if c = sep then [] # splitOn sep cs
      else (case splitOn sep cs of [] \<Rightarrow> [[c]] | w # ws \<Rightarrow> (c # w) # ws))"

text \<open>
  Modelled from the spec: the prefix parser itself; \<open>None\<close> when the string fails to
  parse.
\<close>

definition ParsePrefix :: "string \<Rightarrow> cidr option" where
  "ParsePrefix s =
     (case splitOn (CHR ''/'') s of
        [a, l] \<Rightarrow>
          (case (those (map parseDecimal (splitOn (CHR ''.'') a)), parseDecimal l) of
             (Some [o1, o2, o3, o4], Some n) \<Rightarrow>
               if o1 \<le> 255 \<and> o2 \<le> 255 \<and> o3 \<le> 255 \<and> o4 \<le> 255 \<and> n \<le> 32
               then Some \<lparr>addr = ((int o1 * 256 + int o2) * 256 + int o3) * 256 + int o4,
                          plen = n\<rparr>
               else None
           | _ \<Rightarrow> None)
      | _ \<Rightarrow> None)"

text \<open>
  Modelled from the spec: containment of prefixes, missing with the table library. A
  prefix contains another one when it is not longer and both agree on its network
  bits; \<open>10.0.0.1/24\<close> contains \<open>10.0.0.2/24\<close>, as the hierarchical scenario needs.
\<close>

definition containsPrefix :: "cidr \<Rightarrow> cidr \<Rightarrow> bool" where
  "containsPrefix p q \<longleftrightarrow>
     plen p \<le> plen q \<and> addr p div 2 ^ (32 - plen p) = addr q div 2 ^ (32 - plen p)"


text \<open>Modelled from the spec: \<open>Lookup\<close> is the exact match (section 4.1).\<close>

definition Lookup :: "cidr \<Rightarrow> Route list \<Rightarrow> Route option" where
  "Lookup p t = find (\<lambda>r. prefix r = p) t"

text \<open>
  Modelled from the spec: \<open>LongestMatch\<close> returns the most specific route of the table
  that contains the given prefix, or not-found (section 4.1).
\<close>

fun LongestMatch :: "cidr \<Rightarrow> Route list \<Rightarrow> Route option" where
  "LongestMatch p [] = None"
| "LongestMatch p (r # rs) =
     (case LongestMatch p rs of
        None \<Rightarrow> if containsPrefix (prefix r) p then Some r else None
      | Some m \<Rightarrow>
          if containsPrefix (prefix r) p \<and> plen (prefix m) \<le> plen (prefix r)
          then Some r else Some m)"

text \<open>
  Modelled from the spec: \<open>Insert\<close> adds a route and fails if an identical prefix
  already exists (section 4.1).
\<close>

definition Insert :: "Route \<Rightarrow> Route list \<Rightarrow> error + Route list" where
  "Insert route t =
     (case Lookup (prefix route) t of
        Some _ \<Rightarrow> Inl (AlreadyExists ''route'')
      | None \<Rightarrow> Inr (t @ [route]))"

text \<open>
  Modelled from the spec: \<open>Delete\<close> on the table removes a route and is a no-op if it
  is absent (section 4.1).
\<close>

definition Delete_route :: "cidr \<Rightarrow> Route list \<Rightarrow> Route list" where
  "Delete_route p t = filter (\<lambda>r. prefix r \<noteq> p) t"

section \<open>Instance registry\<close>

text \<open>
  Modelled from the spec: \<open>ipamRib\<close>, the instance registry of section 4.2, is missing
  from the sources. It binds an instance name to its table and to the initialized
  latch; Go's map is an association list with distinct keys.
\<close>

record ribContext =
  rib :: "Route list"
  initialized :: bool

type_synonym ipamRib = "(string \<times> ribContext) list"

text \<open>Modelled from the spec: \<open>newIpamRib\<close>, the registry without instances.\<close>

definition newIpamRib :: ipamRib where
  "newIpamRib = []"

text \<open>
  Modelled from the spec: \<open>create\<close> is idempotent and allocates a table for the name
  if absent (section 4.2).
\<close>

definition create :: "string \<Rightarrow> ipamRib \<Rightarrow> ipamRib" where
  "create name r =
     (case map_of r name of
        None \<Rightarrow> AList.update name \<lparr>rib = [], initialized = False\<rparr> r
      | Some _ \<Rightarrow> r)"


text \<open>
  Modelled from the spec: \<open>isInitialized\<close> reads the one-shot latch (section 4.2); an
  absent instance is not initialized.
\<close>

definition isInitialized :: "string \<Rightarrow> ipamRib \<Rightarrow> bool" where
  "isInitialized name r = (case map_of r name of None \<Rightarrow> False | Some c \<Rightarrow> initialized c)"

text \<open>
  Modelled from the spec: \<open>setInitialized\<close> sets the latch and is idempotent (section
  4.2); it returns an error, which is \<open>NotFound\<close> for an absent instance.
\<close>

definition setInitialized :: "string \<Rightarrow> ipamRib \<Rightarrow> ipamRib \<times> error option" where
  "setInitialized name r =
     (case map_of r name of
        None \<Rightarrow> (r, Some (NotFound name))
      | Some c \<Rightarrow> (AList.update name (c\<lparr>initialized := True\<rparr>) r, None))"

text \<open>
  Modelled from the spec: \<open>getRIB\<close> (\<open>GetTable(name, mustExist)\<close> of section 4.2)
  returns the table of the instance. The specification fixes the absent case for
  \<open>mustExist = true\<close> (\<open>NotFound\<close>) and, apart from that, requires every operation on a
  deleted name to fail with not-found until the name is created again (section 4.2,
  \<open>Delete\<close>) and an allocation on a deleted instance, which passes \<open>false\<close>, to
  return \<open>NotFound\<close> (section 8). The absent case is therefore \<open>NotFound\<close> for both
  values of the flag.
\<close>

definition getRIB :: "string \<Rightarrow> bool \<Rightarrow> ipamRib \<Rightarrow> error + Route list" where
  "getRIB name mustExist r =
     (case map_of r name of
        None \<Rightarrow> Inl (NotFound name)
      | Some c \<Rightarrow> Inr (rib c))"

section \<open>Backend and runtimes: the interfaces of the engine\<close>

text \<open>
  Modelled from the spec: the \<open>Backend\<close> interface (\<open>Restore\<close>, \<open>Store\<close>,
  \<open>Delete\<close>) of section 6. Its declaration and its implementations are missing, so a
  backend is a parameter of the engine. \<open>Restore\<close> populates the table of the named
  instance from a snapshot and may fail, \<open>Store\<close> reads the registry to persist it
  and may fail, \<open>Delete\<close> may fail.
\<close>

record Backend =
  Restore :: "string \<Rightarrow> Route list \<Rightarrow> Route list \<times> error option"
  Store :: "ipamRib \<Rightarrow> IPAllocation \<Rightarrow> error option"
  Delete_backend :: "string \<Rightarrow> error option"

text \<open>
  Modelled from the spec: \<open>NewNopBackend\<close> is missing; all three of its operations are
  trivial successes (section 6).
\<close>

definition NewNopBackend :: Backend where
  "NewNopBackend =
     \<lparr>Restore = (\<lambda>name t. (t, None)), Store = (\<lambda>r alloc. None), Delete_backend = (\<lambda>name. None)\<rparr>"

text \<open>
  Modelled from the spec: the operation that \<open>runtimes.Get\<close> returns, an interface
  with \<open>Validate\<close>, \<open>Apply\<close> and \<open>Delete\<close> (section 4.3) whose declaration is
  missing; an operation is a parameter of the engine. \<open>Validate\<close> is a pure check: it
  returns the diagnostic message and the error and cannot change the registry.
  \<open>Apply\<close> returns the registry it leaves and the updated allocation or an error;
  \<open>Delete\<close> returns the registry it leaves and the error.
\<close>

record Operation =
  Validate :: "ipamRib \<Rightarrow> string \<times> error option"
  Apply :: "ipamRib \<Rightarrow> ipamRib \<times> (error + IPAllocation)"
  Delete_op :: "ipamRib \<Rightarrow> ipamRib \<times> error option"

text \<open>
  Modelled from the spec: the \<open>Runtimes\<close> interface, whose declaration is missing;
  \<open>Get\<close> takes the request and the flag that \<open>AllocateIPPrefix\<close> passes as
  \<open>false\<close>, and resolves the operation or fails.
\<close>

record Runtimes =
  Get :: "ipamRib \<Rightarrow> IPAllocation \<Rightarrow> bool \<Rightarrow> error + Operation"

section \<open>Allocation runtime\<close>

text \<open>
  Modelled from the spec: the recognition of the prefix kind, missing with the
  runtimes; the four names are those of the kubebuilder enum on
  \<open>IPPrefixSpec.PrefixKind\<close>.
\<close>

definition parsePrefixKind :: "string \<Rightarrow> PrefixKind option" where
  "parsePrefixKind k =
     (if k = ''network'' then Some PrefixKindNetwork
      else if k = ''loopback'' then Some PrefixKindLoopback
      else if k = ''pool'' then Some PrefixKindPool
      else if k = ''aggregate'' then Some PrefixKindAggregate
      else None)"

text \<open>
  Modelled from the spec: the diagnostic \<open>errValidateNetworkPrefixWoNetworkParent\<close>,
  which the test of the engine names and section 4.3 spells out.
\<close>

definition errValidateNetworkPrefixWoNetworkParent :: string where
  "errValidateNetworkPrefixWoNetworkParent =
     ''network prefix requires an existing parent network prefix''"

text \<open>
  Modelled from the spec: \<open>Validate\<close> of the operation for an explicit prefix (section
  4.3), a pure check. For kind \<open>network\<close> without createPrefix the longest match of
  the prefix must be a route of kind \<open>network\<close> with createPrefix; otherwise the
  diagnostic is returned, with a nil error. The specification states no rule for the
  other cases, which pass.
\<close>

definition validatePrefix ::
  "IPAllocation \<Rightarrow> PrefixKind \<Rightarrow> cidr \<Rightarrow> ipamRib \<Rightarrow> string \<times> error option" where
  "validatePrefix alloc k p r =
     (case getRIB (NetworkInstance (Spec alloc)) False r of
        Inl err \<Rightarrow> ([], Some err)
      | Inr t \<Rightarrow>
          if k = PrefixKindNetwork \<and> \<not> CreatePrefix (Spec alloc)
          then (case LongestMatch p t of
                  None \<Rightarrow> (errValidateNetworkPrefixWoNetworkParent, None)
                | Some parent \<Rightarrow>
                    if kind parent = PrefixKindNetwork \<and> createPrefix parent
                    then ([], None)
                    else (errValidateNetworkPrefixWoNetworkParent, None))
          else ([], None))"

text \<open>
  Modelled from the spec: the gateway of an allocation without createPrefix is derived
  from the gateway label of the parent route, if present (section 4.3); the label key
  is the one the requests of the test carry.
\<close>

definition gatewayOf :: "cidr \<Rightarrow> Route list \<Rightarrow> string" where
  "gatewayOf p t =
     (case LongestMatch p t of
        None \<Rightarrow> []
      | Some parent \<Rightarrow>
          (case map_of (labels parent) ''nephio.org/gateway'' of None \<Rightarrow> [] | Some g \<Rightarrow> g))"

text \<open>
  Modelled from the spec: \<open>Apply\<close> of the operation for an explicit prefix (section
  4.3). It does not validate again; it inserts the route as given, with the labels of
  the request, and \<open>Insert\<close> fails on an identical prefix. The result carries the
  requested prefix as \<open>allocatedPrefix\<close> and the gateway.
\<close>

definition applyPrefix ::
  "IPAllocation \<Rightarrow> PrefixKind \<Rightarrow> cidr \<Rightarrow> ipamRib \<Rightarrow> ipamRib \<times> (error + IPAllocation)" where
  "applyPrefix alloc k p r =
     (case map_of r (NetworkInstance (Spec alloc)) of
        None \<Rightarrow> (r, Inl (NotFound (NetworkInstance (Spec alloc))))
      | Some c \<Rightarrow>
          (case Insert \<lparr>prefix = p, labels = Labels (Spec alloc), kind = k,
                         createPrefix = CreatePrefix (Spec alloc)\<rparr> (rib c) of
             Inl err \<Rightarrow> (r, Inl err)
           | Inr t' \<Rightarrow>
               (AList.update (NetworkInstance (Spec alloc)) (c\<lparr>rib := t'\<rparr>) r,
                Inr (alloc\<lparr>Status :=
                       \<lparr>AllocatedPrefix = Prefix (Spec alloc),
                        Gateway = (if CreatePrefix (Spec alloc) then []
                                   else gatewayOf p (rib c))\<rparr>\<rparr>))))"

text \<open>
  Modelled from the spec: \<open>Delete\<close> of the operation for an explicit prefix (section
  4.3) removes the route of that prefix; a route that does not exist is not an error.
\<close>

definition deletePrefix :: "IPAllocation \<Rightarrow> cidr \<Rightarrow> ipamRib \<Rightarrow> ipamRib \<times> error option" where
  "deletePrefix alloc p r =
     (case map_of r (NetworkInstance (Spec alloc)) of
        None \<Rightarrow> (r, Some (NotFound (NetworkInstance (Spec alloc))))
      | Some c \<Rightarrow>
          (AList.update (NetworkInstance (Spec alloc)) (c\<lparr>rib := Delete_route p (rib c)\<rparr>) r,
           None))"

text \<open>
  Modelled from the spec: the operation resolved for a request with an explicit prefix,
  made of the three functions above.
\<close>

definition prefixOp :: "IPAllocation \<Rightarrow> PrefixKind \<Rightarrow> cidr \<Rightarrow> Operation" where
  "prefixOp alloc k p =
     \<lparr>Validate = validatePrefix alloc k p, Apply = applyPrefix alloc k p,
      Delete_op = deletePrefix alloc p\<rparr>"

text \<open>
  Modelled from the spec: \<open>NewRuntimes\<close> and its \<open>Get\<close> (the dispatch of section
  4.3) are missing. Resolution fails if the prefix kind is unrecognized, if the prefix,
  when present, fails to parse, if the instance is unknown and, as the comment in
  \<open>AllocateIPPrefix\<close> says, if it is not initialized, unless the caller is
  initializing. The operation for a request without prefix (dynamic allocation) is a
  parameter.
\<close>

definition NewRuntimes :: "(IPAllocation \<Rightarrow> PrefixKind \<Rightarrow> Operation) \<Rightarrow> Runtimes" where
  "NewRuntimes dynamicOp =
     \<lparr>Get = (\<lambda>r alloc initializing.
        case parsePrefixKind (PrefixKind (Spec alloc)) of
          None \<Rightarrow> Inl (MalformedInput (PrefixKind (Spec alloc)))
        | Some k \<Rightarrow>
            (case (if Prefix (Spec alloc) = [] then Some None
                   else map_option Some (ParsePrefix (Prefix (Spec alloc)))) of
               None \<Rightarrow> Inl (MalformedInput (Prefix (Spec alloc)))
             | Some pfx \<Rightarrow>
                 (case getRIB (NetworkInstance (Spec alloc)) False r of
                    Inl err \<Rightarrow> Inl err
                  | Inr t \<Rightarrow>
                      if \<not> initializing \<and> \<not> isInitialized (NetworkInstance (Spec alloc)) r
                      then Inl (NotInitialized (NetworkInstance (Spec alloc)))
                      else (case pfx of
                              None \<Rightarrow> Inr (dynamicOp alloc k)
                            | Some p \<Rightarrow> Inr (prefixOp alloc k p)))))\<rparr>"

section \<open>The engine (ipam)\<close>

text \<open>
  The state of the engine: the registry, and the calls made to the backend so far, in
  order. Logging is left out, and so is the watcher, whose registry the functions below
  reach only through \<open>addWatch\<close> and \<open>deleteWatch\<close>.
\<close>

datatype BackendCall = RestoreCall string | StoreCall IPAllocation | DeleteCall string

record ipam =
  ipamRib :: ipamRib
  calls :: "BackendCall list"

text \<open>\<open>New\<close>: a fresh registry, no backend call made.\<close>

definition New :: ipam where
  "New = \<lparr>ipamRib = newIpamRib, calls = []\<rparr>"

text \<open>\<open>r.backend.Restore(ctx, cr)\<close>: the call is recorded and the table of the instance replaced.\<close>

definition backendRestore :: "Backend \<Rightarrow> string \<Rightarrow> ipam \<Rightarrow> ipam \<times> error option" where
  "backendRestore backend name s =
     (case map_of (ipamRib s) name of
        None \<Rightarrow> (s\<lparr>calls := calls s @ [RestoreCall name]\<rparr>, snd (Restore backend name []))
      | Some c \<Rightarrow>
          (let (t, err) = Restore backend name (rib c)
           in (s\<lparr>ipamRib := AList.update name (c\<lparr>rib := t\<rparr>) (ipamRib s),
                 calls := calls s @ [RestoreCall name]\<rparr>, err)))"

text \<open>
  \<open>Create\<close>: the error of \<open>Restore\<close> is logged and dropped; the result is the error
  of \<open>setInitialized\<close>.
\<close>

definition Create :: "Backend \<Rightarrow> string \<Rightarrow> ipam \<Rightarrow> ipam \<times> error option" where
  "Create backend name s =
     (let s1 = s\<lparr>ipamRib := create name (ipamRib s)\<rparr>
      in if \<not> isInitialized name (ipamRib s1)
         then (let (s2, restoreErr) = backendRestore backend name s1;
                   (r3, err) = setInitialized name (ipamRib s2)
               in (s2\<lparr>ipamRib := r3\<rparr>, err))
         else (s1, None))"


text \<open>
  \<open>AllocateIPPrefix\<close> returns the state, the allocation (\<open>None\<close> for nil) and the error
  (\<open>None\<close> for nil). The last line of the source returns the updated allocation
  together with whatever \<open>Store\<close> returns.
\<close>

definition AllocateIPPrefix ::
  "Runtimes \<Rightarrow> Backend \<Rightarrow> IPAllocation \<Rightarrow> ipam \<Rightarrow> ipam \<times> IPAllocation option \<times> error option" where
  "AllocateIPPrefix runtimes backend alloc s =
     (case Get runtimes (ipamRib s) alloc False of
        Inl err \<Rightarrow> (s, None, Some err)
      | Inr op \<Rightarrow>
          (case Validate op (ipamRib s) of
             (msg, Some err) \<Rightarrow> (s, None, Some err)
           | (msg, None) \<Rightarrow>
               if msg \<noteq> []
               then (s, None, Some (ValidationFailed (''validated failed: '' @ msg)))
               else (case Apply op (ipamRib s) of
                       (r', Inl err) \<Rightarrow> (s\<lparr>ipamRib := r'\<rparr>, None, Some err)
                     | (r', Inr updatedAlloc) \<Rightarrow>
                         (s\<lparr>ipamRib := r', calls := calls s @ [StoreCall alloc]\<rparr>,
                          Some updatedAlloc, Store backend r' alloc))))"

definition DeAllocateIPPrefix ::
  "Runtimes \<Rightarrow> Backend \<Rightarrow> IPAllocation \<Rightarrow> ipam \<Rightarrow> ipam \<times> error option" where
  "DeAllocateIPPrefix runtimes backend alloc s =
     (case Get runtimes (ipamRib s) alloc False of
        Inl err \<Rightarrow> (s, Some err)
      | Inr op \<Rightarrow>
          (case Delete_op op (ipamRib s) of
             (r', Some err) \<Rightarrow> (s\<lparr>ipamRib := r'\<rparr>, Some err)
           | (r', None) \<Rightarrow>
               (s\<lparr>ipamRib := r', calls := calls s @ [StoreCall alloc]\<rparr>, Store backend r' alloc)))"


text \<open>A sequence of \<open>Create\<close> calls on a fresh engine.\<close>

definition createAll :: "Backend \<Rightarrow> string list \<Rightarrow> ipam" where
  "createAll backend names = foldl (\<lambda>s name. fst (Create backend name s)) New names"

section \<open>Concrete inputs\<close>

text \<open>A host route with the given address and labels, for concrete runs of the watcher.\<close>

definition hostRoute :: "int \<Rightarrow> (string \<times> string) list \<Rightarrow> Route" where
  "hostRoute a ls =
     \<lparr>prefix = \<lparr>addr = a, plen = 32\<rparr>, labels = ls, kind = PrefixKindNetwork,
      createPrefix = False\<rparr>"

text \<open>
  The requests of \<open>TestNetworkInstance\<close>: the network prefix \<open>10.0.0.2/24\<close> without
  createPrefix and the network prefix \<open>10.0.0.1/24\<close> with createPrefix, both with the
  labels of the test.
\<close>

definition testLabels :: "(string \<times> string) list" where
  "testLabels =
     [(''nephio.org/gateway'', ''true''), (''nephio.org/region'', ''us-central1''),
      (''nephio.org/site'', ''edge1''), (''nephio.org/network-name'', ''net1'')]"

definition net1PrefixAllocWoCreate :: IPAllocation where
  "net1PrefixAllocWoCreate =
     \<lparr>Name = ''alloc-net1-prefix1'',
      Spec = \<lparr>NetworkInstance = ''niName'', PrefixKind = ''network'',
              Prefix = ''10.0.0.2/24'', CreatePrefix = False, Labels = testLabels\<rparr>,
      Status = \<lparr>AllocatedPrefix = [], Gateway = []\<rparr>\<rparr>"

definition net1PrefixAllocCreate :: IPAllocation where
  "net1PrefixAllocCreate =
     \<lparr>Name = ''alloc-net1-prefix1'',
      Spec = \<lparr>NetworkInstance = ''niName'', PrefixKind = ''network'',
              Prefix = ''10.0.0.1/24'', CreatePrefix = True, Labels = testLabels\<rparr>,
      Status = \<lparr>AllocatedPrefix = [], Gateway = []\<rparr>\<rparr>"

text \<open>
  The routes of the test: the aggregate \<open>10.0.0.0/8\<close> of the instance, the parent
  network \<open>10.0.0.1/24\<close> and the child \<open>10.0.0.2/24\<close>.
\<close>

definition aggregateRoute :: Route where
  "aggregateRoute =
     \<lparr>prefix = \<lparr>addr = 167772160, plen = 8\<rparr>, labels = [],
      kind = PrefixKindAggregate, createPrefix = True\<rparr>"

definition parentRoute :: Route where
  "parentRoute =
     \<lparr>prefix = \<lparr>addr = 167772161, plen = 24\<rparr>, labels = testLabels,
      kind = PrefixKindNetwork, createPrefix = True\<rparr>"

definition childRoute :: Route where
  "childRoute =
     \<lparr>prefix = \<lparr>addr = 167772162, plen = 24\<rparr>, labels = testLabels,
      kind = PrefixKindNetwork, createPrefix = False\<rparr>"

text \<open>
  The engine with the single initialized instance \<open>niName\<close>, the given table and
  the given backend calls behind it.
\<close>

definition tableState :: "Route list \<Rightarrow> BackendCall list \<Rightarrow> ipam" where
  "tableState t cs =
     \<lparr>ipamRib = [(''niName'', \<lparr>rib = t, initialized = True\<rparr>)], calls = cs\<rparr>"

text \<open>
  A value for the parameter of \<open>NewRuntimes\<close> in concrete runs, none of which
  carries a request without prefix: an operation that reports an error.
\<close>

definition noDynamicOp :: "IPAllocation \<Rightarrow> PrefixKind \<Rightarrow> Operation" where
  "noDynamicOp alloc k =
     \<lparr>Validate = (\<lambda>r. ([], Some (MalformedInput []))),
      Apply = (\<lambda>r. (r, Inl (MalformedInput []))),
      Delete_op = (\<lambda>r. (r, None))\<rparr>"

text \<open>A backend whose three operations fail and leave the table as it is.\<close>

definition failingBackend :: Backend where
  "failingBackend =
     \<lparr>Restore = (\<lambda>name t. (t, Some (BackendFailure ''restore''))),
      Store = (\<lambda>r alloc. Some (BackendFailure ''store'')),
      Delete_backend = (\<lambda>name. Some (BackendFailure ''delete''))\<rparr>"

section \<open>The watch registry\<close>



lemma watchInv_inner:
  assumes "watchInv d" "map_of d k = Some m"
  shows "m \<noteq> []" "distinct (map fst m)"
  using assms map_of_SomeD[OF assms(2)] unfolding watchInv_def by auto










section \<open>Fan-out of the watcher\<close>

lemmas handleUpdate_defs =
  handleUpdate_def buildUpdateMap_def keysLoop_def valuesLoop_def addRoute_def

text \<open>
  The inner loop meets at most one matching owner value, so on a registry with distinct
  keys it does not depend on the order of iteration; the outer loop skips every
  owner-kind key under which the route has no label.
\<close>

lemma valuesLoop_distinct:
  "distinct (map fst vals) \<Longrightarrow>
   valuesLoop route v vals um
     = (case map_of vals v of None \<Rightarrow> um | Some fn \<Rightarrow> addRoute route v fn um)"
proof (induction vals arbitrary: um)
  case Nil
  then show ?case by (simp add: valuesLoop_def)
next
  case (Cons a vals)
  obtain v' fn where a: "a = (v', fn)" by (cases a)
  have d: "distinct (map fst vals)" and nin: "v' \<notin> fst ` set vals"
    using Cons.prems a by auto
  have step: "valuesLoop route v (a # vals) um
      = valuesLoop route v vals (if v = v' then addRoute route v fn um else um)"
    by (simp add: valuesLoop_def a)
  show ?case
  proof (cases "v = v'")
    case True
    then have "map_of vals v = None" using nin by (simp add: map_of_eq_None_iff)
    then show ?thesis using True step Cons.IH[OF d] a by simp
  next
    case False
    then show ?thesis using step Cons.IH[OF d] a by simp
  qed
qed

lemma keysLoop_single:
  "distinct (map fst d) \<Longrightarrow>
   (\<forall>k \<in> fst ` set d. k \<noteq> key \<longrightarrow> map_of (labels route) k = None) \<Longrightarrow>
   keysLoop d route um
     = (case map_of d key of
          None \<Rightarrow> um
        | Some vals \<Rightarrow>
            (case map_of (labels route) key of
               None \<Rightarrow> um
             | Some v \<Rightarrow> valuesLoop route v vals um))"
proof (induction d arbitrary: um)
  case Nil
  then show ?case by (simp add: keysLoop_def)
next
  case (Cons a d)
  obtain k vals where a: "a = (k, vals)" by (cases a)
  have dd: "distinct (map fst d)" and nin: "k \<notin> fst ` set d"
    using Cons.prems(1) a by auto
  have rest: "\<forall>k \<in> fst ` set d. k \<noteq> key \<longrightarrow> map_of (labels route) k = None"
    using Cons.prems(2) by simp
  have step: "keysLoop (a # d) route um
      = keysLoop d route (case map_of (labels route) k of
                            Some v \<Rightarrow> valuesLoop route v vals um | None \<Rightarrow> um)"
    by (simp add: keysLoop_def a)
  show ?case
  proof (cases "k = key")
    case True
    then have "map_of d key = None" using nin by (simp add: map_of_eq_None_iff)
    then show ?thesis using True step Cons.IH[OF dd rest] a
      by (simp split: option.splits)
  next
    case False
    then have "map_of (labels route) k = None" using Cons.prems(2) a by simp
    then show ?thesis using False step Cons.IH[OF dd rest] a by simp
  qed
qed

text \<open>
  Claim C6. Let callbacks be registered for two distinct owner values \<open>x\<close> and \<open>y\<close>
  under the owner-kind key, in a registry that satisfies its invariant, and let the
  routes carry no label under any other registered key. For a route labelled with
  \<open>x\<close>, a route labelled with \<open>y\<close> and a route without a label under the key,
  \<open>handleUpdate\<close> makes exactly two invocations: the callback of \<open>x\<close> with exactly
  the first route and the status code, and the callback of \<open>y\<close> with exactly the
  second route and the status code. The order of the registry plays no role.
\<close>

theorem handleUpdate_fan_out:
  assumes "watchInv d"
      and "registered d ownerKey x = Some fX"
      and "registered d ownerKey y = Some fY"
      and "x \<noteq> y"
      and "map_of (labels r1) ownerKey = Some x"
      and "map_of (labels r2) ownerKey = Some y"
      and "map_of (labels r3) ownerKey = None"
      and "\<forall>k \<in> fst ` set d. k \<noteq> ownerKey \<longrightarrow>
             map_of (labels r1) k = None \<and> map_of (labels r2) k = None
             \<and> map_of (labels r3) k = None"
  shows "mset (handleUpdate d [r1, r2, r3] code) = {#(fX, [r1], code), (fY, [r2], code)#}"
proof -
  obtain vals where vals: "map_of d ownerKey = Some vals"
      and vx: "map_of vals x = Some fX" and vy: "map_of vals y = Some fY"
    using assms(2,3) by (auto simp: registered_def split: option.splits)
  have dd: "distinct (map fst d)" using assms(1) by (simp add: watchInv_def)
  have dv: "distinct (map fst vals)" by (rule watchInv_inner(2)[OF assms(1) vals])
  have k: "keysLoop d r um = (case map_of (labels r) ownerKey of
              None \<Rightarrow> um
            | Some v \<Rightarrow> (case map_of vals v of None \<Rightarrow> um | Some fn \<Rightarrow> addRoute r v fn um))"
    if "\<forall>k \<in> fst ` set d. k \<noteq> ownerKey \<longrightarrow> map_of (labels r) k = None" for r um
    using keysLoop_single[OF dd that, of um] vals
    by (simp add: valuesLoop_distinct[OF dv] split: option.splits)
  have k1: "keysLoop d r1 [] = [(x, \<lparr>routes = [r1], callBackFn = fX\<rparr>)]"
    using k[of r1 "[]"] assms(5,8) vx by (simp add: addRoute_def)
  have k2: "keysLoop d r2 [(x, \<lparr>routes = [r1], callBackFn = fX\<rparr>)]
      = [(x, \<lparr>routes = [r1], callBackFn = fX\<rparr>), (y, \<lparr>routes = [r2], callBackFn = fY\<rparr>)]"
    using k[of r2 "[(x, \<lparr>routes = [r1], callBackFn = fX\<rparr>)]"] assms(4,6,8) vy
    by (simp add: addRoute_def)
  have k3: "keysLoop d r3 um = um" for um
    using k[of r3 um] assms(7,8) by simp
  show ?thesis
    by (simp add: handleUpdate_def buildUpdateMap_def k1 k2 k3)
qed

theorem handleUpdate_fan_out_witness:
  "mset (handleUpdate [(''ownerKey'', [(''Y'', ''fY''), (''X'', ''fX'')])]
           [hostRoute 1 [(''ownerKey'', ''X'')], hostRoute 2 [(''ownerKey'', ''Y'')],
            hostRoute 3 []] 7)
     = {#(''fX'', [hostRoute 1 [(''ownerKey'', ''X'')]], 7),
         (''fY'', [hostRoute 2 [(''ownerKey'', ''Y'')]], 7)#}"
  using handleUpdate_fan_out[where d = "[(''ownerKey'', [(''Y'', ''fY''), (''X'', ''fX'')])]"
      and ownerKey = "''ownerKey''" and x = "''X''" and y = "''Y''"
      and fX = "''fX''" and fY = "''fY''"
      and ?r1.0 = "hostRoute 1 [(''ownerKey'', ''X'')]"
      and ?r2.0 = "hostRoute 2 [(''ownerKey'', ''Y'')]"
      and ?r3.0 = "hostRoute 3 []" and code = 7]
  by (simp add: hostRoute_def watchInv_def registered_def)

text \<open>
  Claim C2, evaluated where it fails. Two owner-kind keys \<open>k1\<close> and \<open>k2\<close> each have a
  callback registered for the same owner value \<open>v\<close>; one route carries \<open>k1 = v\<close>, the
  other \<open>k2 = v\<close>. Since \<open>updateMap\<close> is keyed by the owner value alone,
  \<open>handleUpdate\<close> makes a single invocation, of the callback of \<open>(k1, v)\<close> with both
  routes, whichever way the registry is iterated; the callback of \<open>(k2, v)\<close> is not
  invoked. A single route that carries both labels is passed twice to one callback.
\<close>

theorem handleUpdate_shared_owner_value:
  "handleUpdate [(''k1'', [(''v'', ''f1'')]), (''k2'', [(''v'', ''f2'')])]
     [hostRoute 1 [(''k1'', ''v'')], hostRoute 2 [(''k2'', ''v'')]] 0
     = [(''f1'', [hostRoute 1 [(''k1'', ''v'')], hostRoute 2 [(''k2'', ''v'')]], 0)]
   \<and> handleUpdate [(''k2'', [(''v'', ''f2'')]), (''k1'', [(''v'', ''f1'')])]
       [hostRoute 1 [(''k1'', ''v'')], hostRoute 2 [(''k2'', ''v'')]] 0
     = [(''f1'', [hostRoute 1 [(''k1'', ''v'')], hostRoute 2 [(''k2'', ''v'')]], 0)]
   \<and> handleUpdate [(''k1'', [(''v'', ''f1'')]), (''k2'', [(''v'', ''f2'')])]
       [hostRoute 3 [(''k1'', ''v''), (''k2'', ''v'')]] 0
     = [(''f1'', [hostRoute 3 [(''k1'', ''v''), (''k2'', ''v'')],
                  hostRoute 3 [(''k1'', ''v''), (''k2'', ''v'')]], 0)]"
  by (simp add: handleUpdate_defs hostRoute_def)

section \<open>The response validator of the client proxy\<close>

text \<open>
  Claim C10. \<open>ValidateIpamResponse\<close> returns true exactly when the status of the
  original response unmarshals, and its result is the same for any two new responses.
\<close>

theorem ValidateIpamResponse_orig_only:
  "ValidateIpamResponse unmarshal origResp newResp
     = (\<exists>a. unmarshal (RespStatus origResp) = Inr a)
   \<and> ValidateIpamResponse unmarshal origResp newResp
     = ValidateIpamResponse unmarshal origResp newResp'"
  by (auto simp: ValidateIpamResponse_def split: sum.splits)

theorem ValidateIpamResponse_orig_only_witness:
  "ValidateIpamResponse
     (\<lambda>b. if b = ''ok'' then Inr (net1PrefixAllocCreate\<lparr>Status :=
               \<lparr>AllocatedPrefix = ''10.0.0.1/24'', Gateway = []\<rparr>\<rparr>)
          else Inl (MalformedInput b))
     \<lparr>RespStatus = ''ok''\<rparr> \<lparr>RespStatus = ''broken''\<rparr> = True
   \<and> ValidateIpamResponse
     (\<lambda>b. if b = ''ok'' then Inr (net1PrefixAllocCreate\<lparr>Status :=
               \<lparr>AllocatedPrefix = ''10.0.0.1/24'', Gateway = []\<rparr>\<rparr>)
          else Inl (MalformedInput b))
     \<lparr>RespStatus = ''broken''\<rparr> \<lparr>RespStatus = ''ok''\<rparr> = False"
  using ValidateIpamResponse_orig_only[of
      "\<lambda>b. if b = ''ok'' then Inr (net1PrefixAllocCreate\<lparr>Status :=
                \<lparr>AllocatedPrefix = ''10.0.0.1/24'', Gateway = []\<rparr>\<rparr>)
           else Inl (MalformedInput b)"
      "\<lparr>RespStatus = ''ok''\<rparr>" "\<lparr>RespStatus = ''broken''\<rparr>" "\<lparr>RespStatus = ''ok''\<rparr>"]
    ValidateIpamResponse_orig_only[of
      "\<lambda>b. if b = ''ok'' then Inr (net1PrefixAllocCreate\<lparr>Status :=
                \<lparr>AllocatedPrefix = ''10.0.0.1/24'', Gateway = []\<rparr>\<rparr>)
           else Inl (MalformedInput b)"
      "\<lparr>RespStatus = ''broken''\<rparr>" "\<lparr>RespStatus = ''ok''\<rparr>" "\<lparr>RespStatus = ''ok''\<rparr>"]
  by auto

section \<open>Evaluation of the concrete inputs\<close>

lemmas scenario_defs =
  tableState_def net1PrefixAllocWoCreate_def net1PrefixAllocCreate_def
  aggregateRoute_def parentRoute_def childRoute_def testLabels_def

lemmas engine_defs =
  AllocateIPPrefix_def NewRuntimes_def parsePrefixKind_def getRIB_def
  isInitialized_def prefixOp_def validatePrefix_def applyPrefix_def Insert_def Lookup_def
  containsPrefix_def gatewayOf_def errValidateNetworkPrefixWoNetworkParent_def
  NewNopBackend_def failingBackend_def

lemmas registry_defs =
  Create_def New_def newIpamRib_def create_def backendRestore_def setInitialized_def

lemma ParsePrefix_child: "ParsePrefix ''10.0.0.2/24'' = Some \<lparr>addr = 167772162, plen = 24\<rparr>"
  by (simp add: ParsePrefix_def parseDecimal_def digitVal_def)



section \<open>Resolution and validation\<close>







text \<open>
  Claim C3, as amended. When \<open>Validate\<close> of the resolved operation returns a
  non-empty diagnostic with a nil error, \<open>AllocateIPPrefix\<close> leaves the engine as it
  is and returns no allocation together with an error value, whose message is
  \<open>validated failed:\<close> followed by the diagnostic.
\<close>

theorem validation_diagnostic_becomes_error:
  assumes "Get runtimes (ipamRib s) alloc False = Inr op"
      and "Validate op (ipamRib s) = (msg, None)"
      and "msg \<noteq> []"
  shows "AllocateIPPrefix runtimes backend alloc s
           = (s, None, Some (ValidationFailed (''validated failed: '' @ msg)))"
  using assms by (simp add: AllocateIPPrefix_def)

theorem validation_diagnostic_becomes_error_witness:
  "Validate (prefixOp net1PrefixAllocWoCreate PrefixKindNetwork \<lparr>addr = 167772162, plen = 24\<rparr>)
     (ipamRib (tableState [] []))
     = (''network prefix requires an existing parent network prefix'', None)
   \<and> AllocateIPPrefix (NewRuntimes noDynamicOp) failingBackend net1PrefixAllocWoCreate
       (tableState [] [])
     = (tableState [] [], None,
        Some (ValidationFailed
          ''validated failed: network prefix requires an existing parent network prefix''))"
  using validation_diagnostic_becomes_error[where runtimes = "NewRuntimes noDynamicOp"
      and s = "tableState [] []" and alloc = net1PrefixAllocWoCreate
      and op = "prefixOp net1PrefixAllocWoCreate PrefixKindNetwork
                  \<lparr>addr = 167772162, plen = 24\<rparr>"
      and msg = "''network prefix requires an existing parent network prefix''"
      and backend = failingBackend]
  by (simp add: scenario_defs ParsePrefix_child engine_defs)

text \<open>
  Claim C3 as stated fails: for the network prefix \<open>10.0.0.2/24\<close> without
  createPrefix and without parent, \<open>Validate\<close> returns the diagnostic with a nil
  error, and \<open>AllocateIPPrefix\<close> returns a nil allocation and an error that is not
  nil.
\<close>

theorem validation_failure_is_error_value:
  "Validate (prefixOp net1PrefixAllocWoCreate PrefixKindNetwork \<lparr>addr = 167772162, plen = 24\<rparr>)
     (ipamRib (tableState [aggregateRoute] []))
     = (''network prefix requires an existing parent network prefix'', None)
   \<and> fst (snd (AllocateIPPrefix (NewRuntimes noDynamicOp) NewNopBackend net1PrefixAllocWoCreate
       (tableState [aggregateRoute] []))) = None
   \<and> snd (snd (AllocateIPPrefix (NewRuntimes noDynamicOp) NewNopBackend net1PrefixAllocWoCreate
       (tableState [aggregateRoute] []))) \<noteq> None"
  by (simp add: scenario_defs ParsePrefix_child engine_defs)

section \<open>Allocation of an explicit prefix\<close>




section \<open>Instance lifecycle and backend failures\<close>

lemma Create_initialized:
  "isInitialized name (ipamRib s) \<Longrightarrow> Create backend name s = (s, None)"
  by (auto simp: Create_def create_def isInitialized_def split: option.splits)

lemma Create_uninitialized:
  assumes "\<not> isInitialized name (ipamRib s)"
  shows "isInitialized name (ipamRib (fst (Create backend name s)))"
    and "snd (Create backend name s) = None"
    and "calls (fst (Create backend name s)) = calls s @ [RestoreCall name]"
    and "m \<noteq> name \<Longrightarrow>
           isInitialized m (ipamRib (fst (Create backend name s))) = isInitialized m (ipamRib s)"
  using assms
  by (auto simp: Create_def create_def isInitialized_def backendRestore_def setInitialized_def
      update_conv' split: option.splits prod.splits)

lemma Create_restore_inv:
  assumes "\<forall>n. count_list (calls s) (RestoreCall n) \<le> 1 \<and>
               (\<not> isInitialized n (ipamRib s) \<longrightarrow> count_list (calls s) (RestoreCall n) = 0)"
  shows "\<forall>n. count_list (calls (fst (Create backend name s))) (RestoreCall n) \<le> 1 \<and>
               (\<not> isInitialized n (ipamRib (fst (Create backend name s))) \<longrightarrow>
                  count_list (calls (fst (Create backend name s))) (RestoreCall n) = 0)"
proof (cases "isInitialized name (ipamRib s)")
  case True
  then show ?thesis using assms by (simp add: Create_initialized)
next
  case False
  show ?thesis
  proof
    fix n
    show "count_list (calls (fst (Create backend name s))) (RestoreCall n) \<le> 1 \<and>
          (\<not> isInitialized n (ipamRib (fst (Create backend name s))) \<longrightarrow>
             count_list (calls (fst (Create backend name s))) (RestoreCall n) = 0)"
    proof (cases "n = name")
      case True
      then show ?thesis
        using assms False Create_uninitialized(1,3)[OF False, of backend]
        by simp
    next
      case neq: False
      then show ?thesis
        using assms Create_uninitialized(3)[OF False, of backend]
          Create_uninitialized(4)[OF False neq, of backend]
        by simp
    qed
  qed
qed

lemma foldl_Create_restore_inv:
  assumes "\<forall>n. count_list (calls s) (RestoreCall n) \<le> 1 \<and>
               (\<not> isInitialized n (ipamRib s) \<longrightarrow> count_list (calls s) (RestoreCall n) = 0)"
  shows "\<forall>n. count_list
               (calls (foldl (\<lambda>s name. fst (Create backend name s)) s names)) (RestoreCall n) \<le> 1"
  using assms
proof (induction names arbitrary: s)
  case Nil
  then show ?case by simp
next
  case (Cons a names)
  show ?case
    using Cons.IH[OF Create_restore_inv[OF Cons.prems, of backend a]] by simp
qed

text \<open>
  Claim C4. A second \<open>Create\<close> for the same instance name returns nil and leaves the
  engine exactly as the first call left it: the table is unchanged and no backend call
  is made. Two calls add at most one \<open>Restore\<close> for the name, and in any sequence of
  \<open>Create\<close> calls on a fresh engine \<open>Restore\<close> is called at most once for each
  instance.
\<close>

theorem Create_idempotent:
  "Create backend name (fst (Create backend name s)) = (fst (Create backend name s), None)
   \<and> count_list (calls (fst (Create backend name (fst (Create backend name s)))))
         (RestoreCall name)
       \<le> Suc (count_list (calls s) (RestoreCall name))
   \<and> (\<forall>n. count_list (calls (createAll backend names)) (RestoreCall n) \<le> 1)"
proof -
  have init: "isInitialized name (ipamRib (fst (Create backend name s)))"
    by (cases "isInitialized name (ipamRib s)")
       (simp_all add: Create_initialized Create_uninitialized(1))
  have twice: "Create backend name (fst (Create backend name s))
                 = (fst (Create backend name s), None)"
    by (rule Create_initialized[OF init])
  have cnt: "count_list (calls (fst (Create backend name s))) (RestoreCall name)
       \<le> Suc (count_list (calls s) (RestoreCall name))"
    by (cases "isInitialized name (ipamRib s)")
       (simp_all add: Create_initialized Create_uninitialized(3))
  have all: "\<forall>n. count_list (calls (createAll backend names)) (RestoreCall n) \<le> 1"
    unfolding createAll_def
    by (rule foldl_Create_restore_inv) (simp add: New_def newIpamRib_def isInitialized_def)
  show ?thesis using twice cnt all by simp
qed

theorem Create_idempotent_witness:
  "Create failingBackend ''niName'' New = (tableState [] [RestoreCall ''niName''], None)
   \<and> Create failingBackend ''niName'' (tableState [] [RestoreCall ''niName''])
       = (tableState [] [RestoreCall ''niName''], None)
   \<and> calls (createAll failingBackend [''niName'', ''other'', ''niName''])
       = [RestoreCall ''niName'', RestoreCall ''other'']"
  using Create_idempotent[of failingBackend "''niName''" New "[''niName'', ''other'', ''niName'']"]
  by (simp add: tableState_def createAll_def failingBackend_def isInitialized_def registry_defs)

text \<open>
  Claim C7. When the operation has been applied, \<open>AllocateIPPrefix\<close> returns the
  registry that \<open>Apply\<close> left and the allocation that \<open>Apply\<close> returned, whatever
  \<open>Store\<close> returns, an error included; and after \<open>Create\<close> the instance is
  initialized and the result is nil, whatever \<open>Restore\<close> returns.
\<close>

theorem backend_failure_keeps_mutation:
  assumes "Get runtimes (ipamRib s) alloc False = Inr op"
      and "Validate op (ipamRib s) = ([], None)"
      and "Apply op (ipamRib s) = (r', Inr a)"
  shows "AllocateIPPrefix runtimes backend alloc s
           = (s\<lparr>ipamRib := r', calls := calls s @ [StoreCall alloc]\<rparr>, Some a,
              Store backend r' alloc)
         \<and> isInitialized name (ipamRib (fst (Create backend name s0)))
         \<and> snd (Create backend name s0) = None"
proof -
  have "isInitialized name (ipamRib (fst (Create backend name s0)))
        \<and> snd (Create backend name s0) = None"
    by (cases "isInitialized name (ipamRib s0)")
       (simp_all add: Create_initialized Create_uninitialized(1,2))
  then show ?thesis using assms by (simp add: AllocateIPPrefix_def)
qed

theorem backend_failure_keeps_mutation_witness:
  "AllocateIPPrefix (NewRuntimes noDynamicOp) failingBackend net1PrefixAllocWoCreate
     (tableState [aggregateRoute, parentRoute] [])
   = (tableState [aggregateRoute, parentRoute, childRoute] [StoreCall net1PrefixAllocWoCreate],
      Some (net1PrefixAllocWoCreate\<lparr>Status :=
              \<lparr>AllocatedPrefix = ''10.0.0.2/24'', Gateway = ''true''\<rparr>\<rparr>),
      Some (BackendFailure ''store''))
   \<and> snd (Restore failingBackend ''niName'' []) = Some (BackendFailure ''restore'')
   \<and> Create failingBackend ''niName'' New = (tableState [] [RestoreCall ''niName''], None)"
  using backend_failure_keeps_mutation[where runtimes = "NewRuntimes noDynamicOp"
      and s = "tableState [aggregateRoute, parentRoute] []" and alloc = net1PrefixAllocWoCreate
      and op = "prefixOp net1PrefixAllocWoCreate PrefixKindNetwork
                  \<lparr>addr = 167772162, plen = 24\<rparr>"
      and r' = "[(''niName'',
                  \<lparr>rib = [aggregateRoute, parentRoute, childRoute], initialized = True\<rparr>)]"
      and a = "net1PrefixAllocWoCreate\<lparr>Status :=
                 \<lparr>AllocatedPrefix = ''10.0.0.2/24'', Gateway = ''true''\<rparr>\<rparr>"
      and backend = failingBackend and name = "''niName''" and ?s0.0 = New]
  by (simp add: scenario_defs ParsePrefix_child engine_defs registry_defs)



end
